theory Spec2Isabelle
  imports Complex_Main
begin

section \<open>Data model\<close>

text \<open>
  The Spotify types of \<^verbatim>\<open>types/spotify\<close>, restricted to the fields the two components
  read: \<^verbatim>\<open>track.id\<close>, \<^verbatim>\<open>track.name\<close>, \<^verbatim>\<open>track.artists[i].name\<close>,
  \<^verbatim>\<open>track.album.name\<close> and \<^verbatim>\<open>track.album.images[i].url\<close>. Field names carry the
  name of their record as a prefix where two records of the source share a field name.
\<close>

record spotify_artist =
  artist_name :: string

record spotify_image =
  url :: string

record spotify_album =
  album_name :: string
  images :: "spotify_image list"

record spotify_track =
  track_id :: string
  track_name :: string
  artists :: "spotify_artist list"
  album :: spotify_album

text \<open>
  JavaScript numbers are IEEE binary64. A finite number is modelled by its exact value, a
  \<^typ>\<open>real\<close>, and the result of every arithmetic operation is rounded to binary64 (see
  the next section). The rounded score is an \<^typ>\<open>int\<close>.
\<close>

record guess_result =
  score :: int
  isCorrect :: bool

text \<open>The \<^verbatim>\<open>useState\<close> cells of the \<^verbatim>\<open>GamePlayer\<close> component.\<close>

record game_state =
  timer :: real
  isGuessing :: bool
  titleGuess :: string
  artistGuess :: string
  result :: "guess_result option"
  hasStartedPlaying :: bool

text \<open>The observable fields of the \<^verbatim>\<open>usePlayer\<close> hook.\<close>

record player_state =
  isPlaying :: bool
  player_error :: "string option"
  isInitialized :: bool

text \<open>The entry handed to \<^verbatim>\<open>addGameResult\<close>.\<close>

record game_history_entry =
  trackId :: string
  trackName :: string
  artistName :: string
  albumImage :: string
  entry_score :: int
  time :: real
  timestamp :: int

text \<open>Reading a property of \<^verbatim>\<open>undefined\<close> throws a \<^verbatim>\<open>TypeError\<close>.\<close>

datatype js_error = TypeError

text \<open>The calls a handler makes to its collaborators, in the order of the source.\<close>

datatype effect =
    OnGameComplete int
  | AddGameResult game_history_entry
  | OnPlayAgain

section \<open>Binary64 arithmetic\<close>

text \<open>
  The nearest integer, a tie going to the even one: the rounding of the significand.
\<close>

definition round_to_even :: "real \<Rightarrow> int" where
  "round_to_even q =
     (let f = \<lfloor>q\<rfloor>; d = q - of_int f
      in if d < 1 / 2 then f
         else if 1 / 2 < d then f + 1
         else if even f then f else f + 1)"

text \<open>
  The binary exponent of a magnitude \<open>a\<close>: the largest \<open>e\<close> between -1021 and 1023
  with \<open>2 powi e \<le> a\<close>, and -1022 below that (the subnormal numbers share the spacing
  of the smallest normal binade).
\<close>

fun binade_search :: "nat \<Rightarrow> real \<Rightarrow> int" where
  "binade_search 0 a = - 1022"
| "binade_search (Suc k) a =
     (if 2 powi (int (Suc k) - 1022) \<le> a then int (Suc k) - 1022 else binade_search k a)"

definition binade :: "real \<Rightarrow> int" where
  "binade a = binade_search 2045 a"

text \<open>
  Rounding to binary64: to the nearest multiple of the spacing \<open>2 powi (e - 52)\<close> of
  the binade \<open>e\<close> of \<open>x\<close>, ties to even. A JavaScript operation \<^verbatim>\<open>a + b\<close> is \<open>binary64 (a + b)\<close>, and
  likewise for \<^verbatim>\<open>-\<close>, \<^verbatim>\<open>*\<close> and \<^verbatim>\<open>/\<close>; a decimal literal denotes the rounding of
  its value. Results beyond the largest finite binary64 (the code's \<^verbatim>\<open>Infinity\<close>) and
  \<^verbatim>\<open>NaN\<close> are not modelled; similarities in \<open>[0, 1]\<close> and a timer that is not negative
  keep every value of the score computation far below that bound.
\<close>

definition binary64 :: "real \<Rightarrow> real" where
  "binary64 x =
     (let u = 2 powi (binade \<bar>x\<bar> - 52)
      in of_int (round_to_even (x / u)) * u)"

section \<open>Score Calculator\<close>

text \<open>\<^verbatim>\<open>Math.round\<close>: the nearest integer, a tie going to the larger one.\<close>

definition Math_round :: "real \<Rightarrow> int" where
  "Math_round x = \<lfloor>x + 1 / 2\<rfloor>"

text \<open>
  \<^verbatim>\<open>calculateScore\<close> of \<^verbatim>\<open>GamePlayer\<close>. The similarity scorer
  \<^verbatim>\<open>calculateSimilarity\<close> of \<^verbatim>\<open>utils/similarity\<close> is a parameter. With an empty
  artist list \<^verbatim>\<open>track.artists[0]\<close> is \<^verbatim>\<open>undefined\<close> and reading its name throws.
  Each of the eight arithmetic operations of lines 63 to 65 is rounded; \<^verbatim>\<open>Math.max\<close>,
  \<^verbatim>\<open>Math.round\<close> and the comparisons are exact, and the literal \<^verbatim>\<open>0.8\<close> is
  \<open>binary64 0.8\<close>.
\<close>

definition calculateScore ::
  "(string \<Rightarrow> string \<Rightarrow> real) \<Rightarrow> game_state \<Rightarrow> spotify_track \<Rightarrow> js_error + guess_result" where
  "calculateScore calculateSimilarity st track =
     (case artists track of
        [] \<Rightarrow> Inl TypeError
      | artist0 # _ \<Rightarrow>
          (let titleSimilarity = calculateSimilarity (titleGuess st) (track_name track);
               artistSimilarity = calculateSimilarity (artistGuess st) (artist_name artist0);
               averageSimilarity = binary64 (binary64 (titleSimilarity + artistSimilarity) / 2);
               timeBonus = max 0 (binary64 (1 - binary64 (timer st / 30)));
               score =
                 Math_round
                   (binary64
                      (binary64 (binary64 (averageSimilarity * 80) + binary64 (timeBonus * 20))
                       * 100))
           in Inr \<lparr>score = score,
                    isCorrect =
                      (titleSimilarity > binary64 0.8 \<and> artistSimilarity > binary64 0.8)\<rparr>))"

text \<open>
  The score as the specification words it: the rounded sum of 80 times the mean similarity
  and 20 times the time bonus, in exact arithmetic.
\<close>

definition spec_score :: "real \<Rightarrow> real \<Rightarrow> real \<Rightarrow> int" where
  "spec_score titleSimilarity artistSimilarity elapsed =
     Math_round ((titleSimilarity + artistSimilarity) / 2 * 80
                 + max 0 (1 - elapsed / 30) * 20)"

text \<open>
  A sample similarity scorer that meets the contract of the specification (values in
  \<open>[0, 1]\<close>, equal strings score 1): it instantiates the parameter at concrete inputs.
\<close>

definition exactMatch :: "string \<Rightarrow> string \<Rightarrow> real" where
  "exactMatch a b = (if a = b then 1 else 0)"

definition sampleTrack :: spotify_track where
  "sampleTrack =
     \<lparr>track_id = ''t1'', track_name = ''Song'',
      artists = [\<lparr>artist_name = ''Band''\<rparr>, \<lparr>artist_name = ''Guest''\<rparr>],
      album = \<lparr>album_name = ''LP'', images = [\<lparr>url = ''cover.png''\<rparr>]\<rparr>\<rparr>"

definition sampleGuess :: "real \<Rightarrow> game_state" where
  "sampleGuess elapsed =
     \<lparr>timer = elapsed, isGuessing = True, titleGuess = ''Song'', artistGuess = ''Band'',
      result = None, hasStartedPlaying = True\<rparr>"

section \<open>Game session of \<^verbatim>\<open>GamePlayer\<close>\<close>

text \<open>How an awaited promise settles.\<close>

datatype settled = Fulfilled | Rejected

text \<open>
  \<^verbatim>\<open>handlePauseAndGuess\<close>: awaits \<^verbatim>\<open>togglePlayback()\<close> of the player hook, then sets
  the guessing flag. The hook's operation is a parameter: it acts on the player's state and
  its promise settles. When the promise rejects, the \<^verbatim>\<open>await\<close> throws and
  \<^verbatim>\<open>setIsGuessing(true)\<close> is not reached.
\<close>

definition handlePauseAndGuess ::
  "(player_state \<Rightarrow> player_state \<times> settled) \<Rightarrow> player_state \<times> game_state
     \<Rightarrow> player_state \<times> game_state" where
  "handlePauseAndGuess togglePlayback ps =
     (case ps of
        (pl, st) \<Rightarrow>
          (case togglePlayback pl of
             (pl', Fulfilled) \<Rightarrow> (pl', st\<lparr>isGuessing := True\<rparr>)
           | (pl', Rejected) \<Rightarrow> (pl', st)))"

text \<open>
  Modelled from the spec: \<^verbatim>\<open>togglePlayback\<close> of \<^verbatim>\<open>hooks/usePlayer\<close>, which is not
  among the sources. The Playback Engine reports a play/pause state and this operation
  toggles it; its promise is fulfilled.
\<close>

definition togglePlayback :: "player_state \<Rightarrow> player_state \<times> settled" where
  "togglePlayback pl = (pl\<lparr>isPlaying := \<not> isPlaying pl\<rparr>, Fulfilled)"

text \<open>
  \<^verbatim>\<open>handleSubmitGuess\<close>: stores the result, reports the score to the parent and appends
  the round to the history. \<^verbatim>\<open>Date.now()\<close> is the parameter \<open>now\<close>. The album image
  is \<^verbatim>\<open>track.album.images[0]?.url || ''\<close>.
\<close>

definition handleSubmitGuess ::
  "(string \<Rightarrow> string \<Rightarrow> real) \<Rightarrow> int \<Rightarrow> game_state \<Rightarrow> spotify_track
     \<Rightarrow> js_error + game_state \<times> effect list" where
  "handleSubmitGuess calculateSimilarity now st track =
     (case calculateScore calculateSimilarity st track of
        Inl e \<Rightarrow> Inl e
      | Inr res \<Rightarrow>
          (case artists track of
             [] \<Rightarrow> Inl TypeError
           | artist0 # _ \<Rightarrow>
               Inr (st\<lparr>result := Some res\<rparr>,
                    [OnGameComplete (score res),
                     AddGameResult
                       \<lparr>trackId = track_id track,
                        trackName = track_name track,
                        artistName = artist_name artist0,
                        albumImage =
                          (case images (album track) of
                             [] \<Rightarrow> []
                           | image0 # _ \<Rightarrow> (if url image0 = [] then [] else url image0)),
                        entry_score = score res,
                        time = timer st,
                        timestamp = now\<rparr>])))"

text \<open>\<^verbatim>\<open>handlePlayAgain\<close> of \<^verbatim>\<open>GamePlayer\<close>: six resets, then the parent's callback.\<close>

definition handlePlayAgain :: "game_state \<Rightarrow> game_state \<times> effect list" where
  "handlePlayAgain st =
     (st\<lparr>timer := 0, isGuessing := False, titleGuess := [], artistGuess := [],
         result := None, hasStartedPlaying := False\<rparr>,
      [OnPlayAgain])"

text \<open>
  The condition under which the second effect of the component keeps the 100 ms interval
  that advances the timer.
\<close>

definition timerRunning :: "player_state \<Rightarrow> game_state \<Rightarrow> bool" where
  "timerRunning pl st =
     (isPlaying pl \<and> hasStartedPlaying st \<and> \<not> isGuessing st \<and> result st = None)"

text \<open>
  The phases of the specification, read off the branches of the render function (a stored
  result shows the result view, the guessing flag shows the guess form) and the timer's
  condition.
\<close>

datatype phase = AwaitingPlayback | Playing | Guessing | Scored

definition phase_of :: "player_state \<Rightarrow> game_state \<Rightarrow> phase" where
  "phase_of pl st =
     (if result st \<noteq> None then Scored
      else if isGuessing st then Guessing
      else if isPlaying pl \<and> hasStartedPlaying st then Playing
      else AwaitingPlayback)"

text \<open>
  The render function shows the button bound to \<^verbatim>\<open>handlePauseAndGuess\<close> in its last
  branch only: no player error (a non-empty string is truthy), player initialised, no
  result, not guessing.
\<close>

definition pauseAndGuessOffered :: "player_state \<Rightarrow> game_state \<Rightarrow> bool" where
  "pauseAndGuessOffered pl st =
     (if (case player_error pl of None \<Rightarrow> False | Some e \<Rightarrow> e \<noteq> []) then False
      else if \<not> isInitialized pl then False
      else if result st \<noteq> None then False
      else if isGuessing st then False
      else True)"

section \<open>Track Selector of \<^verbatim>\<open>App\<close>\<close>

record playlist_item =
  track :: spotify_track

record tracks_response =
  items :: "playlist_item list"

text \<open>The state cells of \<^verbatim>\<open>App\<close> that \<^verbatim>\<open>handlePlaylistSelect\<close> reads or writes.\<close>

record app_state =
  currentTrack :: "spotify_track option"
  error :: "string option"
  playedTracks :: "string set"

text \<open>
  The calls to the state setters. \<open>AddPlayedTrack i\<close> is
  \<^verbatim>\<open>setPlayedTracks(prev => new Set([...prev, i]))\<close>.
\<close>

datatype app_update =
    SetCurrentTrack spotify_track
  | AddPlayedTrack string
  | SetError "string option"

fun apply_update :: "app_state \<Rightarrow> app_update \<Rightarrow> app_state" where
  "apply_update st (SetCurrentTrack t) = st\<lparr>currentTrack := Some t\<rparr>"
| "apply_update st (AddPlayedTrack i) = st\<lparr>playedTracks := insert i (playedTracks st)\<rparr>"
| "apply_update st (SetError e) = st\<lparr>error := e\<rparr>"

definition commit :: "app_state \<Rightarrow> app_update list \<Rightarrow> app_state" where
  "commit st ups = foldl apply_update st ups"

text \<open>
  \<^verbatim>\<open>handlePlaylistSelect\<close>, as the list of setter calls it makes. The state \<open>st\<close> is
  that of the render that created the handler: \<^verbatim>\<open>playedTracks\<close> on line 43 is the
  constant of that render, also after the \<^verbatim>\<open>await\<close>. The awaited
  \<^verbatim>\<open>getPlaylistTracks\<close> is the parameter \<open>fetched\<close> (\<open>Inl\<close> when the promise
  rejects), \<^verbatim>\<open>validateTrack\<close> of \<^verbatim>\<open>utils/validators\<close> is a parameter, and \<open>rnd\<close>
  is the value of \<^verbatim>\<open>Math.random()\<close>, a binary64 in \<open>[0, 1)\<close> and so at most
  \<open>1 - 1 / 2 ^ 53\<close>. The product with the length is rounded, \<^verbatim>\<open>Math.floor\<close> is exact.
  For an index out of range the element read is \<^verbatim>\<open>undefined\<close> and reading its id
  throws.
\<close>

definition handlePlaylistSelect ::
  "(spotify_track \<Rightarrow> bool) \<Rightarrow> app_state \<Rightarrow> string + tracks_response \<Rightarrow> real
     \<Rightarrow> js_error + app_update list" where
  "handlePlaylistSelect validateTrack st fetched rnd =
     (case fetched of
        Inl e \<Rightarrow> Inr [SetError (Some ''Failed to load tracks. Please try again.'')]
      | Inr response \<Rightarrow>
          (let validTracks =
                 filter (\<lambda>t. track_id t \<notin> playedTracks st)
                   (filter validateTrack (map track (items response)))
           in if length validTracks = 0
              then Inr [SetError (Some ''No more unplayed tracks in this playlist!'')]
              else
                (let i = \<lfloor>binary64 (rnd * real (length validTracks))\<rfloor>
                 in if 0 \<le> i \<and> i < int (length validTracks)
                    then
                      (let randomTrack = validTracks ! nat i
                       in Inr [SetCurrentTrack randomTrack,
                               AddPlayedTrack (track_id randomTrack),
                               SetError None])
                    else Inl TypeError)))"

text \<open>The tracks passed to \<^verbatim>\<open>setCurrentTrack\<close>, in order.\<close>

fun selected :: "app_update list \<Rightarrow> spotify_track list" where
  "selected [] = []"
| "selected (SetCurrentTrack t # ups) = t # selected ups"
| "selected (_ # ups) = selected ups"



text \<open>Sample inputs for the Track Selector.\<close>

definition otherTrack :: spotify_track where
  "otherTrack =
     \<lparr>track_id = ''t2'', track_name = ''Tune'',
      artists = [\<lparr>artist_name = ''Singer''\<rparr>],
      album = \<lparr>album_name = ''EP'', images = []\<rparr>\<rparr>"

definition sampleResponse :: tracks_response where
  "sampleResponse = \<lparr>items = [\<lparr>track = sampleTrack\<rparr>, \<lparr>track = otherTrack\<rparr>]\<rparr>"

definition freshApp :: app_state where
  "freshApp = \<lparr>currentTrack = None, error = None, playedTracks = {}\<rparr>"



text \<open>A sample track validator: a track needs at least one artist.\<close>

definition hasArtist :: "spotify_track \<Rightarrow> bool" where
  "hasArtist t = (artists t \<noteq> [])"

definition pausedPlayer :: player_state where
  "pausedPlayer = \<lparr>isPlaying = False, player_error = None, isInitialized = True\<rparr>"

section \<open>Properties of binary64 rounding\<close>

lemma round_to_even_of_int: "round_to_even (of_int k) = k"
  by (simp add: round_to_even_def)

lemma round_to_even_bounds:
  "\<lfloor>q\<rfloor> \<le> round_to_even q" "round_to_even q \<le> \<lfloor>q\<rfloor> + 1"
  by (simp_all add: round_to_even_def Let_def)


lemma round_to_even_mono:
  assumes "q \<le> r"
  shows "round_to_even q \<le> round_to_even r"
proof (cases "\<lfloor>q\<rfloor> = \<lfloor>r\<rfloor>")
  case True
  with assms show ?thesis
    by (auto simp: round_to_even_def Let_def)
next
  case False
  with assms have "\<lfloor>q\<rfloor> + 1 \<le> \<lfloor>r\<rfloor>"
    using floor_mono [OF assms] by linarith
  with round_to_even_bounds(2) [of q] round_to_even_bounds(1) [of r]
  show ?thesis by linarith
qed

lemma round_to_even_minus: "round_to_even (- q) = - round_to_even q"
proof (cases "q \<in> \<int>")
  case True
  then obtain k where "q = of_int k" by (auto elim: Ints_cases)
  then have "- q = of_int (- k)" by simp
  then show ?thesis unfolding \<open>q = of_int k\<close> round_to_even_of_int
    by (metis round_to_even_of_int)
next
  case False
  then have ne: "q \<noteq> of_int \<lfloor>q\<rfloor>"
    by (metis Ints_of_int)
  then have f: "\<lfloor>- q\<rfloor> = - \<lfloor>q\<rfloor> - 1"
    by (simp add: floor_minus ceiling_altdef)
  have "q - of_int \<lfloor>q\<rfloor> \<noteq> 0" using ne by simp
  then show ?thesis
    unfolding round_to_even_def Let_def f
    by (auto simp: algebra_simps)
qed

lemma binade_search_range:
  "- 1022 \<le> binade_search k a \<and> binade_search k a \<le> int k - 1022"
  by (induction k) auto

lemma binade_search_lower:
  "- 1022 < binade_search k a \<Longrightarrow> 2 powi (binade_search k a) \<le> a"
  by (induction k) (auto split: if_splits)

lemma binade_search_upper:
  "binade_search k a < int k - 1022 \<Longrightarrow> a < 2 powi (binade_search k a + 1)"
proof (induction k)
  case 0
  then show ?case by simp
next
  case (Suc k)
  show ?case
  proof (cases "2 powi (int (Suc k) - 1022) \<le> a")
    case True
    with Suc.prems show ?thesis by simp
  next
    case False
    then have s: "binade_search (Suc k) a = binade_search k a" by simp
    show ?thesis
    proof (cases "binade_search k a < int k - 1022")
      case True
      with Suc.IH s show ?thesis by simp
    next
      case False
      with binade_search_range [of k a] have "binade_search k a = int k - 1022" by linarith
      then have e: "binade_search k a + 1 = int (Suc k) - 1022" by simp
      from \<open>\<not> 2 powi (int (Suc k) - 1022) \<le> a\<close>
      have "a < 2 powi (int (Suc k) - 1022)" by (simp only: not_le)
      then show ?thesis by (simp only: s e)
    qed
  qed
qed

lemma binade_range: "- 1022 \<le> binade a" "binade a \<le> 1023"
  using binade_search_range [of 2045 a] by (simp_all add: binade_def)

lemma binade_lower: "- 1022 < binade a \<Longrightarrow> 2 powi (binade a) \<le> a"
  unfolding binade_def by (rule binade_search_lower)

lemma binade_upper: "binade a < 1023 \<Longrightarrow> a < 2 powi (binade a + 1)"
  unfolding binade_def using binade_search_upper [of 2045 a] by simp

lemma binade_mono:
  assumes "a \<le> b"
  shows "binade a \<le> binade b"
proof (rule ccontr)
  assume "\<not> binade a \<le> binade b"
  then have lt: "binade b < binade a" by simp
  with binade_range(1) [of b] have "- 1022 < binade a" by linarith
  then have "2 powi (binade a) \<le> a" by (rule binade_lower)
  moreover from lt binade_range(2) [of a] have "binade b < 1023" by linarith
  then have "b < 2 powi (binade b + 1)" by (rule binade_upper)
  moreover from lt have "(2::real) powi (binade b + 1) \<le> 2 powi (binade a)"
    by (intro power_int_increasing) simp_all
  ultimately show False using assms by linarith
qed

lemma binade_eqI:
  assumes "- 1022 \<le> e" "e \<le> 1023" "2 powi e \<le> a" "a < 2 powi (e + 1)"
  shows "binade a = e"
proof (rule antisym)
  show "binade a \<le> e"
  proof (rule ccontr)
    assume "\<not> binade a \<le> e"
    then have lt: "e + 1 \<le> binade a" by simp
    with assms(1) have "- 1022 < binade a" by linarith
    then have "2 powi (binade a) \<le> a" by (rule binade_lower)
    moreover from lt have "(2::real) powi (e + 1) \<le> 2 powi (binade a)"
      by (intro power_int_increasing) simp_all
    ultimately show False using assms(4) by linarith
  qed
  show "e \<le> binade a"
  proof (rule ccontr)
    assume "\<not> e \<le> binade a"
    then have lt: "binade a + 1 \<le> e" by simp
    with assms(2) have "binade a < 1023" by linarith
    then have "a < 2 powi (binade a + 1)" by (rule binade_upper)
    moreover from lt have "(2::real) powi (binade a + 1) \<le> 2 powi e"
      by (intro power_int_increasing) simp_all
    ultimately show False using assms(3) by linarith
  qed
qed

lemma binary64_minus: "binary64 (- x) = - binary64 x"
  by (simp add: binary64_def Let_def round_to_even_minus)

lemma binary64_zero: "binary64 0 = 0"
  by (simp add: binary64_def round_to_even_def)

lemma binary64_nonneg:
  assumes "0 \<le> x"
  shows "0 \<le> binary64 x"
proof -
  have "0 \<le> x / 2 powi (binade \<bar>x\<bar> - 52)" using assms by simp
  then have "round_to_even 0 \<le> round_to_even (x / 2 powi (binade \<bar>x\<bar> - 52))"
    by (rule round_to_even_mono)
  then have "0 \<le> round_to_even (x / 2 powi (binade \<bar>x\<bar> - 52))"
    using round_to_even_of_int [of 0] by simp
  then show ?thesis by (simp add: binary64_def Let_def)
qed

lemma binary64_mono_nonneg:
  assumes "0 \<le> x" "x \<le> y"
  shows "binary64 x \<le> binary64 y"
proof -
  let ?ex = "binade \<bar>x\<bar>" and ?ey = "binade \<bar>y\<bar>"
  have le: "?ex \<le> ?ey" using assms by (intro binade_mono) simp
  show ?thesis
  proof (cases "?ex = ?ey")
    case True
    have "x / 2 powi (?ey - 52) \<le> y / 2 powi (?ey - 52)"
      using assms by (intro divide_right_mono) simp_all
    then have "round_to_even (x / 2 powi (?ey - 52)) \<le> round_to_even (y / 2 powi (?ey - 52))"
      by (rule round_to_even_mono)
    then show ?thesis
      unfolding binary64_def Let_def True
      by (intro mult_right_mono) simp_all
  next
    case False
    with le have lt: "?ex < ?ey" by simp
    with binade_range(2) [of "\<bar>y\<bar>"] have "?ex < 1023" by linarith
    then have "\<bar>x\<bar> < 2 powi (?ex + 1)" by (rule binade_upper)
    then have "x / 2 powi (?ex - 52) \<le> 2 powi (?ex + 1) / 2 powi (?ex - 52)"
      using assms by (intro divide_right_mono) simp_all
    also have "(2::real) powi (?ex + 1) / 2 powi (?ex - 52) = 2 powi 53"
      by (simp flip: power_int_diff)
    finally have "round_to_even (x / 2 powi (?ex - 52)) \<le> round_to_even (2 powi 53)"
      by (rule round_to_even_mono)
    also have "round_to_even (2 powi 53) = 2 ^ 53"
      using round_to_even_of_int [of "2 ^ 53"] by simp
    finally have "binary64 x \<le> 2 ^ 53 * 2 powi (?ex - 52)"
      unfolding binary64_def Let_def
      by (metis (no_types, opaque_lifting) mult_right_mono of_int_le_iff of_int_numeral
          of_int_power zero_le_numeral zero_le_power_int)
    also have "(2::real) ^ 53 * 2 powi (?ex - 52) = 2 powi (?ex + 1)"
      using power_int_add [of "2::real" 53 "?ex - 52"] by (simp add: add.commute)
    also have "\<dots> \<le> 2 powi ?ey"
      using lt by (intro power_int_increasing) simp_all
    finally have up: "binary64 x \<le> 2 powi ?ey" .
    from lt binade_range(1) [of "\<bar>x\<bar>"] have "- 1022 < ?ey" by linarith
    then have "2 powi ?ey \<le> \<bar>y\<bar>" by (rule binade_lower)
    then have "2 powi ?ey / 2 powi (?ey - 52) \<le> y / 2 powi (?ey - 52)"
      using assms by (intro divide_right_mono) simp_all
    moreover have "(2::real) powi ?ey / 2 powi (?ey - 52) = 2 powi 52"
      by (simp flip: power_int_diff)
    ultimately have "round_to_even (2 powi 52) \<le> round_to_even (y / 2 powi (?ey - 52))"
      by (metis round_to_even_mono)
    moreover have "round_to_even (2 powi 52) = 2 ^ 52"
      using round_to_even_of_int [of "2 ^ 52"] by simp
    ultimately have "(2::real) ^ 52 * 2 powi (?ey - 52) \<le> binary64 y"
      unfolding binary64_def Let_def
      by (metis (no_types, opaque_lifting) mult_right_mono of_int_le_iff of_int_numeral
          of_int_power zero_le_numeral zero_le_power_int)
    moreover have "(2::real) ^ 52 * 2 powi (?ey - 52) = 2 powi ?ey"
      using power_int_add [of "2::real" 52 "?ey - 52"] by (simp add: add.commute)
    ultimately show ?thesis using up by linarith
  qed
qed

lemma binary64_mono:
  assumes "x \<le> y"
  shows "binary64 x \<le> binary64 y"
proof -
  consider "0 \<le> x" | "y \<le> 0" | "x < 0" "0 < y" by linarith
  then show ?thesis
  proof cases
    case 1
    then show ?thesis using assms by (rule binary64_mono_nonneg)
  next
    case 2
    with assms have "binary64 (- y) \<le> binary64 (- x)"
      by (intro binary64_mono_nonneg) simp_all
    then show ?thesis by (simp add: binary64_minus)
  next
    case 3
    then have "0 \<le> binary64 (- x)" "0 \<le> binary64 y"
      by (simp_all add: binary64_nonneg)
    then show ?thesis by (simp add: binary64_minus)
  qed
qed

lemma binary64_exactI:
  assumes "x / 2 powi (binade \<bar>x\<bar> - 52) = of_int m"
  shows "binary64 x = x"
proof -
  have "binary64 x = of_int m * 2 powi (binade \<bar>x\<bar> - 52)"
    by (simp add: binary64_def Let_def assms round_to_even_of_int)
  also have "\<dots> = x"
    using assms by (simp flip: assms)
  finally show ?thesis .
qed

lemma binary64_dyadic:
  assumes "- 1022 \<le> e" "e \<le> 1023" "2 powi e \<le> \<bar>x\<bar>" "\<bar>x\<bar> < 2 powi (e + 1)"
    and "x / 2 powi (e - 52) = of_int m"
  shows "binary64 x = x"
proof -
  have "binade \<bar>x\<bar> = e" using assms(1-4) by (rule binade_eqI)
  with assms(5) show ?thesis by (intro binary64_exactI [of x m]) simp
qed

lemma binade_one: "binade 1 = 0"
  by (rule binade_eqI) simp_all

lemma binade_2_53: "binade (2 ^ 53) = 53"
  by (rule binade_eqI) simp_all

lemma binary64_of_nat_pos:
  assumes "0 < k" "k \<le> 2 ^ 53"
  shows "binary64 (of_int k) = of_int k"
proof -
  let ?a = "of_int k :: real"
  let ?e = "binade \<bar>?a\<bar>"
  have a: "1 \<le> \<bar>?a\<bar>" "\<bar>?a\<bar> \<le> 2 ^ 53" using assms by simp_all
  have lo: "0 \<le> ?e" using binade_mono [OF a(1)] by (simp add: binade_one)
  have hi: "?e \<le> 53" using binade_mono [OF a(2)] by (simp only: binade_2_53)
  show ?thesis
  proof (cases "?e \<le> 52")
    case True
    define n where "n = nat (52 - ?e)"
    have "(2::real) powi (?e - 52) = 1 / 2 ^ n"
      using True by (simp add: n_def power_int_def field_simps)
    then have "?a / 2 powi (?e - 52) = of_int (k * 2 ^ n)" by simp
    then show ?thesis by (rule binary64_exactI)
  next
    case False
    with hi have e: "?e = 53" by linarith
    then have "2 powi ?e \<le> \<bar>?a\<bar>" by (intro binade_lower) simp
    with a(2) e have "\<bar>?a\<bar> = 2 ^ 53" by simp
    with assms(1) have k: "?a = 2 ^ 53" by simp
    have "binade 9007199254740992 = 53" using binade_2_53 by simp
    then have "?a / 2 powi (?e - 52) = of_int (2 ^ 52)" by (simp add: k)
    then show ?thesis by (rule binary64_exactI)
  qed
qed

lemma binary64_of_int:
  assumes "\<bar>k\<bar> \<le> 2 ^ 53"
  shows "binary64 (of_int k) = of_int k"
proof -
  consider "k = 0" | "0 < k" | "k < 0" by linarith
  then show ?thesis
  proof cases
    case 1
    then show ?thesis by (simp add: binary64_zero)
  next
    case 2
    with assms show ?thesis by (intro binary64_of_nat_pos) simp_all
  next
    case 3
    with assms have "binary64 (of_int (- k)) = of_int (- k)"
      by (intro binary64_of_nat_pos) simp_all
    then show ?thesis by (simp add: binary64_minus)
  qed
qed

lemma binary64_numeral:
  "numeral w \<le> (2::int) ^ 53 \<Longrightarrow> binary64 (numeral w) = numeral w"
  using binary64_of_int [of "numeral w"] by simp

lemma binary64_one: "binary64 1 = 1"
  using binary64_of_int [of 1] by simp



lemma binary64_half: "binary64 (1 / 2) = 1 / 2"
  by (rule binary64_dyadic [where e = "- 1" and m = "2 ^ 52"]) simp_all

lemma binary64_three_quarters: "binary64 (3 / 4) = 3 / 4"
  by (rule binary64_dyadic [where e = "- 1" and m = "3 * 2 ^ 51"]) simp_all

lemma binary64_three_halves: "binary64 (3 / 2) = 3 / 2"
  by (rule binary64_dyadic [where e = 0 and m = "3 * 2 ^ 51"]) simp_all

lemma binary64_eval:
  assumes "- 1022 \<le> e" "e \<le> 1023" "2 powi e \<le> \<bar>x\<bar>" "\<bar>x\<bar> < 2 powi (e + 1)"
  shows "binary64 x = of_int (round_to_even (x / 2 powi (e - 52))) * 2 powi (e - 52)"
proof -
  have "binade \<bar>x\<bar> = e" using assms by (rule binade_eqI)
  then show ?thesis by (simp add: binary64_def Let_def)
qed

lemma literal_0_8: "binary64 0.8 = 3602879701896397 / 4503599627370496"
  by (subst binary64_eval [where e = "- 1"]) (simp_all add: round_to_even_def Let_def)

lemma binade_power: "- 1022 \<le> e \<Longrightarrow> e \<le> 1023 \<Longrightarrow> binade (2 powi e) = e"
  by (rule binade_eqI) (simp_all add: power_int_strict_increasing)

lemma binary64_idem_nonneg:
  assumes "0 \<le> x"
  shows "binary64 (binary64 x) = binary64 x"
proof -
  define e where "e = binade \<bar>x\<bar>"
  define u where "u = (2::real) powi (e - 52)"
  define k where "k = round_to_even (x / u)"
  define y where "y = binary64 x"
  have u: "0 < u" by (simp add: u_def)
  have y: "y = of_int k * u"
    by (simp add: y_def binary64_def Let_def k_def e_def u_def)
  have y0: "0 \<le> y" unfolding y_def using assms by (rule binary64_nonneg)
  have e_range: "- 1022 \<le> e" "e \<le> 1023" using binade_range [of "\<bar>x\<bar>"] by (simp_all add: e_def)
  have lo: "e \<le> binade \<bar>y\<bar>"
  proof (cases "- 1022 < e")
    case True
    then have "2 powi e \<le> \<bar>x\<bar>" unfolding e_def by (rule binade_lower)
    then have "2 powi e / u \<le> x / u" using assms u by (simp add: divide_right_mono)
    moreover have "(2::real) powi e / u = 2 powi 52"
      by (simp add: u_def flip: power_int_diff)
    ultimately have "round_to_even (2 powi 52) \<le> k"
      unfolding k_def by (metis round_to_even_mono)
    moreover have "round_to_even (2 powi 52) = 2 ^ 52"
      using round_to_even_of_int [of "2 ^ 52"] by simp
    ultimately have "(2::real) ^ 52 \<le> of_int k"
      by (metis of_int_le_iff of_int_numeral of_int_power)
    then have "2 ^ 52 * u \<le> y" unfolding y using u by (simp add: mult_right_mono)
    moreover have "2 ^ 52 * u = 2 powi e"
      using power_int_add [of "2::real" 52 "e - 52"] by (simp add: u_def add.commute)
    ultimately have "2 powi e \<le> \<bar>y\<bar>" using y0 by simp
    then have "binade (2 powi e) \<le> binade \<bar>y\<bar>" by (rule binade_mono)
    then show ?thesis using e_range by (simp add: binade_power)
  next
    case False
    with e_range binade_range(1) [of "\<bar>y\<bar>"] show ?thesis by linarith
  qed
  have hi: "binade \<bar>y\<bar> \<le> e + 1 \<and> (binade \<bar>y\<bar> = e + 1 \<longrightarrow> y = 2 powi (e + 1))"
  proof (cases "e < 1023")
    case True
    then have "\<bar>x\<bar> < 2 powi (e + 1)" unfolding e_def by (rule binade_upper)
    then have "x / u \<le> 2 powi (e + 1) / u" using assms u by (simp add: divide_right_mono)
    moreover have "(2::real) powi (e + 1) / u = 2 powi 53"
      by (simp add: u_def flip: power_int_diff)
    ultimately have "k \<le> round_to_even (2 powi 53)"
      unfolding k_def by (metis round_to_even_mono)
    moreover have "round_to_even (2 powi 53) = 2 ^ 53"
      using round_to_even_of_int [of "2 ^ 53"] by simp
    ultimately have "of_int k \<le> (2::real) ^ 53"
      by (metis of_int_le_iff of_int_numeral of_int_power)
    then have "y \<le> 2 ^ 53 * u" unfolding y using u by (simp add: mult_right_mono)
    moreover have "2 ^ 53 * u = 2 powi (e + 1)"
      using power_int_add [of "2::real" 53 "e - 52"] by (simp add: u_def add.commute)
    ultimately have le: "\<bar>y\<bar> \<le> 2 powi (e + 1)" using y0 by simp
    then have "binade \<bar>y\<bar> \<le> binade (2 powi (e + 1))" by (rule binade_mono)
    then have b: "binade \<bar>y\<bar> \<le> e + 1" using e_range True by (simp add: binade_power)
    have "y = 2 powi (e + 1)" if "binade \<bar>y\<bar> = e + 1"
    proof -
      from that e_range have "- 1022 < binade \<bar>y\<bar>" by simp
      then have "2 powi (binade \<bar>y\<bar>) \<le> \<bar>y\<bar>" by (rule binade_lower)
      with le that y0 show ?thesis by simp
    qed
    with b show ?thesis by blast
  next
    case False
    with e_range have "e = 1023" by simp
    with binade_range(2) [of "\<bar>y\<bar>"] show ?thesis by simp
  qed
  show ?thesis
  proof (cases "binade \<bar>y\<bar> = e")
    case True
    have "y / 2 powi (e - 52) = of_int k"
      using u by (simp add: y u_def)
    then have "y / 2 powi (binade \<bar>y\<bar> - 52) = of_int k"
      by (simp only: True)
    then have "binary64 y = y" by (rule binary64_exactI)
    then show ?thesis by (simp add: y_def)
  next
    case False
    with lo hi have b: "binade \<bar>y\<bar> = e + 1" and v: "y = 2 powi (e + 1)" by auto
    have "(2::real) powi (e + 1) / 2 powi (e + 1 - 52) = 2 powi 52"
      by (simp flip: power_int_diff)
    then have "y / 2 powi (e + 1 - 52) = of_int (2 ^ 52)"
      by (simp add: v)
    then have "y / 2 powi (binade \<bar>y\<bar> - 52) = of_int (2 ^ 52)"
      by (simp only: b)
    then have "binary64 y = y" by (rule binary64_exactI)
    then show ?thesis by (simp add: y_def)
  qed
qed

lemma binary64_idem: "binary64 (binary64 x) = binary64 x"
proof (cases "0 \<le> x")
  case True
  then show ?thesis by (rule binary64_idem_nonneg)
next
  case False
  then have "binary64 (binary64 (- x)) = binary64 (- x)"
    by (intro binary64_idem_nonneg) simp
  then show ?thesis by (simp add: binary64_minus)
qed

section \<open>Properties of the Score Calculator\<close>

lemma binary64_four_fifths: "binary64 (4 / 5) = 3602879701896397 / 4503599627370496"
  using literal_0_8 by simp

lemmas binary64_exact = binary64_four_fifths
  binary64_zero binary64_one binary64_numeral binary64_half binary64_three_quarters
  binary64_three_halves binary64_minus binary64_idem literal_0_8

lemma Math_round_mono: "x \<le> y \<Longrightarrow> Math_round x \<le> Math_round y"
  unfolding Math_round_def by (intro floor_mono) simp

lemma calculateScore_Cons:
  "artists tr = a # rest \<Longrightarrow>
   calculateScore sim st tr =
     Inr \<lparr>score =
            Math_round
              (binary64
                 (binary64
                    (binary64
                       (binary64 (binary64 (sim (titleGuess st) (track_name tr)
                                            + sim (artistGuess st) (artist_name a)) / 2)
                        * 80)
                     + binary64 (max 0 (binary64 (1 - binary64 (timer st / 30))) * 20))
                  * 100)),
          isCorrect = (sim (titleGuess st) (track_name tr) > binary64 0.8
                       \<and> sim (artistGuess st) (artist_name a) > binary64 0.8)\<rparr>"
  by (simp add: calculateScore_def Let_def)

lemma timeBonus_zero:
  assumes "30 \<le> t"
  shows "max 0 (binary64 (1 - binary64 (t / 30))) = 0"
proof -
  have "1 \<le> t / 30" using assms by simp
  then have "binary64 1 \<le> binary64 (t / 30)" by (rule binary64_mono)
  then have "1 - binary64 (t / 30) \<le> 0" by (simp add: binary64_one)
  then have "binary64 (1 - binary64 (t / 30)) \<le> binary64 0" by (rule binary64_mono)
  then show ?thesis by (simp add: binary64_zero)
qed

lemma timeBonus_antimono:
  assumes "t1 \<le> t2"
  shows "max 0 (binary64 (1 - binary64 (t2 / 30))) \<le> max 0 (binary64 (1 - binary64 (t1 / 30)))"
proof -
  have "t1 / 30 \<le> t2 / 30" using assms by simp
  then have "binary64 (t1 / 30) \<le> binary64 (t2 / 30)" by (rule binary64_mono)
  then have "1 - binary64 (t2 / 30) \<le> 1 - binary64 (t1 / 30)" by simp
  then have "binary64 (1 - binary64 (t2 / 30)) \<le> binary64 (1 - binary64 (t1 / 30))"
    by (rule binary64_mono)
  then show ?thesis by (simp add: max_def)
qed

lemma timeBonus_range:
  assumes "0 \<le> t"
  shows "0 \<le> max 0 (binary64 (1 - binary64 (t / 30)))"
    and "max 0 (binary64 (1 - binary64 (t / 30))) \<le> 1"
proof -
  show "0 \<le> max 0 (binary64 (1 - binary64 (t / 30)))" by simp
  have "0 \<le> t / 30" using assms by simp
  then have "0 \<le> binary64 (t / 30)" by (rule binary64_nonneg)
  then have "1 - binary64 (t / 30) \<le> 1" by simp
  then have "binary64 (1 - binary64 (t / 30)) \<le> binary64 1" by (rule binary64_mono)
  then show "max 0 (binary64 (1 - binary64 (t / 30))) \<le> 1" by (simp add: binary64_one)
qed

lemma binary64_between:
  assumes "of_int lo \<le> x" "x \<le> of_int hi" "\<bar>lo\<bar> \<le> 2 ^ 53" "\<bar>hi\<bar> \<le> 2 ^ 53"
  shows "of_int lo \<le> binary64 x \<and> binary64 x \<le> of_int hi"
proof -
  have "binary64 (of_int lo) \<le> binary64 x" "binary64 x \<le> binary64 (of_int hi)"
    using assms(1,2) by (simp_all only: binary64_mono)
  then show ?thesis
    using binary64_of_int [OF assms(3)] binary64_of_int [OF assms(4)] by simp
qed

lemma score_value_range:
  assumes a: "0 \<le> a" "a \<le> 1" and b: "0 \<le> b" "b \<le> 1"
  shows "0 \<le> binary64 (binary64 (binary64 (a * 80) + binary64 (b * 20)) * 100)"
    and "binary64 (binary64 (binary64 (a * 80) + binary64 (b * 20)) * 100) \<le> 10000"
proof -
  have "of_int 0 \<le> a * 80" "a * 80 \<le> of_int 80" using a by simp_all
  then have p: "0 \<le> binary64 (a * 80)" "binary64 (a * 80) \<le> 80"
    using binary64_between [of 0 "a * 80" 80] by simp_all
  have "of_int 0 \<le> b * 20" "b * 20 \<le> of_int 20" using b by simp_all
  then have q: "0 \<le> binary64 (b * 20)" "binary64 (b * 20) \<le> 20"
    using binary64_between [of 0 "b * 20" 20] by simp_all
  define s where "s = binary64 (binary64 (a * 80) + binary64 (b * 20))"
  have "of_int 0 \<le> binary64 (a * 80) + binary64 (b * 20)"
    "binary64 (a * 80) + binary64 (b * 20) \<le> of_int 100"
    using p q by simp_all
  then have s: "0 \<le> s" "s \<le> 100"
    using binary64_between [of 0 "binary64 (a * 80) + binary64 (b * 20)" 100]
    by (simp_all add: s_def)
  then have "of_int 0 \<le> s * 100" "s * 100 \<le> of_int 10000" by simp_all
  then have "0 \<le> binary64 (s * 100)" "binary64 (s * 100) \<le> 10000"
    using binary64_between [of 0 "s * 100" 10000] by simp_all
  then show "0 \<le> binary64 (binary64 (binary64 (a * 80) + binary64 (b * 20)) * 100)"
    and "binary64 (binary64 (binary64 (a * 80) + binary64 (b * 20)) * 100) \<le> 10000"
    by (simp_all add: s_def)
qed

lemma averageSimilarity_range:
  assumes "0 \<le> x" "x \<le> 1" "0 \<le> y" "y \<le> 1"
  shows "0 \<le> binary64 (binary64 (x + y) / 2)" and "binary64 (binary64 (x + y) / 2) \<le> 1"
proof -
  have "of_int 0 \<le> x + y" "x + y \<le> of_int 2" using assms by simp_all
  then have s: "0 \<le> binary64 (x + y)" "binary64 (x + y) \<le> 2"
    using binary64_between [of 0 "x + y" 2] by simp_all
  then have "of_int 0 \<le> binary64 (x + y) / 2" "binary64 (x + y) / 2 \<le> of_int 1" by simp_all
  then show "0 \<le> binary64 (binary64 (x + y) / 2)" and "binary64 (binary64 (x + y) / 2) \<le> 1"
    using binary64_between [of 0 "binary64 (x + y) / 2" 1] by simp_all
qed

text \<open>
  Claim C1 as the specification words it fails on the code: an exact title, an exact artist
  and no elapsed time score 10000, where \<open>round (avgSimilarity * 80 + timeBonus * 20)\<close>
  is 100.
\<close>

theorem C1_counterexample:
  "calculateScore exactMatch (sampleGuess 0) sampleTrack = Inr \<lparr>score = 10000, isCorrect = True\<rparr>
   \<and> spec_score (exactMatch ''Song'' ''Song'') (exactMatch ''Band'' ''Band'') 0 = 100"
  by (simp add: calculateScore_def sampleGuess_def sampleTrack_def exactMatch_def
      spec_score_def Math_round_def Let_def binary64_exact)

text \<open>
  The rounding of the operations shows in the score. With both similarities 0 and 19.3125
  seconds elapsed, exact arithmetic gives 712.5, which rounds to 713; in binary64 the value
  is just below 712.5 and the score is 712.
\<close>

lemma calculateScore_rounds_each_operation:
  "calculateScore exactMatch ((sampleGuess 19.3125)\<lparr>titleGuess := [], artistGuess := []\<rparr>)
     sampleTrack
   = Inr \<lparr>score = 712, isCorrect = False\<rparr>"
proof -
  have r1: "binary64 (103 / 160) = 2899192260119757 / 4503599627370496"
    by (subst binary64_eval [where e = "- 1"]) (simp_all add: round_to_even_def Let_def)
  have r2: "binary64 (1604407367250739 / 4503599627370496)
            = 1604407367250739 / 4503599627370496"
    by (subst binary64_eval [where e = "- 2"]) (simp_all add: round_to_even_def Let_def)
  have r3: "binary64 (8022036836253695 / 1125899906842624)
            = 8022036836253695 / 1125899906842624"
    by (subst binary64_eval [where e = 2]) (simp_all add: round_to_even_def Let_def)
  have r5: "binary64 (200550920906342375 / 281474976710656)
            = 6267216278323199 / 8796093022208"
    by (subst binary64_eval [where e = 9]) (simp_all add: round_to_even_def Let_def)
  show ?thesis
    by (simp add: calculateScore_def sampleGuess_def sampleTrack_def exactMatch_def
        Math_round_def Let_def binary64_exact r1 r2 r3 r5)
qed

text \<open>
  Claim C1, amended: for a track with a first artist, similarities in \<open>[0, 1]\<close> and an
  elapsed time that is not negative, the score is
  \<open>round ((avgSimilarity * 80 + timeBonus * 20) * 100)\<close> evaluated in binary64, every
  operation rounded, where \<open>avgSimilarity\<close> is the mean of the title similarity and the
  similarity to the first artist's name and \<open>timeBonus = max 0 (1 - elapsed / 30)\<close>. From
  30 seconds on the time bonus is 0 and the score is \<open>round (avgSimilarity * 80 * 100)\<close>.
\<close>

theorem calculateScore_formula:
  assumes art: "artists tr = artist0 # rest"
    and title: "0 \<le> sim (titleGuess st) (track_name tr)" "sim (titleGuess st) (track_name tr) \<le> 1"
    and artist: "0 \<le> sim (artistGuess st) (artist_name artist0)" "sim (artistGuess st) (artist_name artist0) \<le> 1"
    and elapsed: "0 \<le> timer st"
  shows "calculateScore sim st tr =
      Inr \<lparr>score =
          Math_round
            (binary64
               (binary64
                  (binary64
                     (binary64 (binary64 (sim (titleGuess st) (track_name tr)
                + sim (artistGuess st) (artist_name artist0)) / 2)
                      * 80)
                   + binary64 (max 0 (binary64 (1 - binary64 (timer st / 30))) * 20))
                * 100)),
        isCorrect =
            (sim (titleGuess st) (track_name tr) > binary64 0.8
             \<and> sim (artistGuess st) (artist_name artist0) > binary64 0.8)\<rparr>
    \<and> (30 \<le> timer st \<longrightarrow>
         max 0 (binary64 (1 - binary64 (timer st / 30))) = 0
         \<and> calculateScore sim st tr =
      Inr \<lparr>score =
          Math_round
            (binary64
               (binary64
                  (binary64 (binary64 (sim (titleGuess st) (track_name tr)
                + sim (artistGuess st) (artist_name artist0)) / 2)
                   * 80)
                * 100)),
        isCorrect =
            (sim (titleGuess st) (track_name tr) > binary64 0.8
             \<and> sim (artistGuess st) (artist_name artist0) > binary64 0.8)\<rparr>)"
proof (intro conjI impI)
  show "calculateScore sim st tr =
      Inr \<lparr>score =
          Math_round
            (binary64
               (binary64
                  (binary64
                     (binary64 (binary64 (sim (titleGuess st) (track_name tr)
                + sim (artistGuess st) (artist_name artist0)) / 2)
                      * 80)
                   + binary64 (max 0 (binary64 (1 - binary64 (timer st / 30))) * 20))
                * 100)),
        isCorrect =
            (sim (titleGuess st) (track_name tr) > binary64 0.8
             \<and> sim (artistGuess st) (artist_name artist0) > binary64 0.8)\<rparr>"
    using art by (rule calculateScore_Cons)
  assume "30 \<le> timer st"
  then show zero: "max 0 (binary64 (1 - binary64 (timer st / 30))) = 0"
    by (rule timeBonus_zero)
  show "calculateScore sim st tr =
      Inr \<lparr>score =
          Math_round
            (binary64
               (binary64
                  (binary64 (binary64 (sim (titleGuess st) (track_name tr)
                + sim (artistGuess st) (artist_name artist0)) / 2)
                   * 80)
                * 100)),
        isCorrect =
            (sim (titleGuess st) (track_name tr) > binary64 0.8
             \<and> sim (artistGuess st) (artist_name artist0) > binary64 0.8)\<rparr>"
    by (simp add: calculateScore_Cons [OF art] zero binary64_zero binary64_idem)
qed

text \<open>
  The amended claim C1 at a perfect guess after 45 seconds: 8000 points.
\<close>

theorem calculateScore_formula_witness:
  "artists sampleTrack = \<lparr>artist_name = ''Band''\<rparr> # [\<lparr>artist_name = ''Guest''\<rparr>]
   \<and> 30 \<le> timer (sampleGuess 45)
   \<and> calculateScore exactMatch (sampleGuess 45) sampleTrack
       = Inr \<lparr>score = 8000, isCorrect = True\<rparr>"
proof -
  have a: "artists sampleTrack = \<lparr>artist_name = ''Band''\<rparr> # [\<lparr>artist_name = ''Guest''\<rparr>]"
    by (simp add: sampleTrack_def)
  have t: "30 \<le> timer (sampleGuess 45)" "0 \<le> timer (sampleGuess 45)"
    by (simp_all add: sampleGuess_def)
  have s: "0 \<le> exactMatch (titleGuess (sampleGuess 45)) (track_name sampleTrack)"
    "exactMatch (titleGuess (sampleGuess 45)) (track_name sampleTrack) \<le> 1"
    "0 \<le> exactMatch (artistGuess (sampleGuess 45)) (artist_name \<lparr>artist_name = ''Band''\<rparr>)"
    "exactMatch (artistGuess (sampleGuess 45)) (artist_name \<lparr>artist_name = ''Band''\<rparr>) \<le> 1"
    by (simp_all add: exactMatch_def)
  from calculateScore_formula [OF a s t(2)] t(1)
  have "calculateScore exactMatch (sampleGuess 45) sampleTrack
       = Inr \<lparr>score =
            Math_round
              (binary64
                 (binary64
                    (binary64 (binary64 (exactMatch (titleGuess (sampleGuess 45)) (track_name sampleTrack)
                       + exactMatch (artistGuess (sampleGuess 45)) (artist_name \<lparr>artist_name = ''Band''\<rparr>)) / 2)
                     * 80)
                  * 100)),
          isCorrect =
            (exactMatch (titleGuess (sampleGuess 45)) (track_name sampleTrack) > binary64 0.8
             \<and> exactMatch (artistGuess (sampleGuess 45)) (artist_name \<lparr>artist_name = ''Band''\<rparr>) > binary64 0.8)\<rparr>"
    by blast
  then have "calculateScore exactMatch (sampleGuess 45) sampleTrack
       = Inr \<lparr>score = 8000, isCorrect = True\<rparr>"
    by (simp add: sampleGuess_def sampleTrack_def exactMatch_def Math_round_def binary64_exact)
  with a t show ?thesis by blast
qed

text \<open>
  Claim C2 as stated fails on the code: the score of a perfect guess at time 0 is not in
  \<open>[0, 100]\<close>.
\<close>

theorem C2_counterexample:
  "\<not> (case calculateScore exactMatch (sampleGuess 0) sampleTrack of
        Inl e \<Rightarrow> False
      | Inr r \<Rightarrow> 0 \<le> score r \<and> score r \<le> 100)"
  by (simp add: calculateScore_def sampleGuess_def sampleTrack_def exactMatch_def Math_round_def Let_def binary64_exact)

text \<open>
  Claim C2, amended: when both similarities lie in \<open>[0, 1]\<close> and the elapsed time is
  not negative, the score of a track with a first artist is an integer in
  \<open>[0, 10000]\<close>.
\<close>

theorem calculateScore_range:
  assumes art: "artists tr = artist0 # rest"
    and title: "0 \<le> sim (titleGuess st) (track_name tr)"
               "sim (titleGuess st) (track_name tr) \<le> 1"
    and artist: "0 \<le> sim (artistGuess st) (artist_name artist0)"
                "sim (artistGuess st) (artist_name artist0) \<le> 1"
    and elapsed: "0 \<le> timer st"
  shows "\<exists>r. calculateScore sim st tr = Inr r \<and> 0 \<le> score r \<and> score r \<le> 10000"
proof -
  define a where "a = binary64 (binary64 (sim (titleGuess st) (track_name tr)
                       + sim (artistGuess st) (artist_name artist0)) / 2)"
  define b where "b = max 0 (binary64 (1 - binary64 (timer st / 30)))"
  define v where "v = binary64 (binary64 (binary64 (a * 80) + binary64 (b * 20)) * 100)"
  have a: "0 \<le> a" "a \<le> 1"
    unfolding a_def using title artist by (rule averageSimilarity_range)+
  have b: "0 \<le> b" "b \<le> 1"
    unfolding b_def using elapsed by (rule timeBonus_range)+
  have "0 \<le> v" "v \<le> 10000"
    unfolding v_def using a b by (rule score_value_range)+
  then have "Math_round 0 \<le> Math_round v" "Math_round v \<le> Math_round 10000"
    by (simp_all only: Math_round_mono)
  moreover have "Math_round 0 = 0" "Math_round 10000 = 10000"
    by (simp_all add: Math_round_def)
  ultimately have "0 \<le> Math_round v" "Math_round v \<le> 10000"
    by simp_all
  then show ?thesis
    unfolding calculateScore_Cons [OF art] v_def a_def b_def by simp
qed

text \<open>
  The amended claim C2 at a perfect guess after 12 seconds.
\<close>

theorem calculateScore_range_witness:
  "\<exists>r. calculateScore exactMatch (sampleGuess 12) sampleTrack = Inr r
       \<and> 0 \<le> score r \<and> score r \<le> 10000"
  using calculateScore_range [where tr = sampleTrack and ?artist0.0 = "\<lparr>artist_name = ''Band''\<rparr>"
      and rest = "[\<lparr>artist_name = ''Guest''\<rparr>]" and sim = exactMatch
      and st = "sampleGuess 12"]
  by (simp add: sampleTrack_def sampleGuess_def exactMatch_def)

text \<open>
  Claim C3: with the guesses and the track fixed, so that both similarities are fixed, a
  later elapsed time never gives a higher score.
\<close>

theorem calculateScore_antimono_elapsed:
  assumes "t1 \<le> t2" and art: "artists tr = artist0 # rest"
  shows "\<exists>r1 r2. calculateScore sim (st\<lparr>timer := t1\<rparr>) tr = Inr r1
               \<and> calculateScore sim (st\<lparr>timer := t2\<rparr>) tr = Inr r2
               \<and> score r2 \<le> score r1"
proof -
  define a where "a = binary64 (binary64 (binary64 (sim (titleGuess st) (track_name tr)
                       + sim (artistGuess st) (artist_name artist0)) / 2) * 80)"
  define b1 where "b1 = max 0 (binary64 (1 - binary64 (t1 / 30)))"
  define b2 where "b2 = max 0 (binary64 (1 - binary64 (t2 / 30)))"
  have "b2 \<le> b1"
    unfolding b1_def b2_def using assms(1) by (rule timeBonus_antimono)
  then have "b2 * 20 \<le> b1 * 20" by simp
  then have "binary64 (b2 * 20) \<le> binary64 (b1 * 20)" by (rule binary64_mono)
  then have "a + binary64 (b2 * 20) \<le> a + binary64 (b1 * 20)" by simp
  then have "binary64 (a + binary64 (b2 * 20)) \<le> binary64 (a + binary64 (b1 * 20))"
    by (rule binary64_mono)
  then have "binary64 (a + binary64 (b2 * 20)) * 100 \<le> binary64 (a + binary64 (b1 * 20)) * 100"
    by simp
  then have "binary64 (binary64 (a + binary64 (b2 * 20)) * 100)
             \<le> binary64 (binary64 (a + binary64 (b1 * 20)) * 100)"
    by (rule binary64_mono)
  then have "Math_round (binary64 (binary64 (a + binary64 (b2 * 20)) * 100))
             \<le> Math_round (binary64 (binary64 (a + binary64 (b1 * 20)) * 100))"
    by (rule Math_round_mono)
  then show ?thesis
    by (simp add: calculateScore_Cons [OF art] a_def b1_def b2_def)
qed

text \<open>
  Claim C3 at 3 and 21 seconds: 9800 against 8600 points.
\<close>

theorem calculateScore_antimono_elapsed_witness:
  "(3::real) \<le> 21
   \<and> calculateScore exactMatch (sampleGuess 3) sampleTrack = Inr \<lparr>score = 9800, isCorrect = True\<rparr>
   \<and> calculateScore exactMatch (sampleGuess 21) sampleTrack = Inr \<lparr>score = 8600, isCorrect = True\<rparr>
   \<and> (\<exists>r1 r2. calculateScore exactMatch ((sampleGuess 0)\<lparr>timer := 3\<rparr>) sampleTrack = Inr r1
               \<and> calculateScore exactMatch ((sampleGuess 0)\<lparr>timer := 21\<rparr>) sampleTrack = Inr r2
               \<and> score r2 \<le> score r1)"
proof -
  have le: "(3::real) \<le> 21" by simp
  have a: "artists sampleTrack = \<lparr>artist_name = ''Band''\<rparr> # [\<lparr>artist_name = ''Guest''\<rparr>]"
    by (simp add: sampleTrack_def)
  have a0: "binary64 (1 / 10) = 3602879701896397 / 36028797018963968"
    by (subst binary64_eval [where e = "- 4"]) (simp_all add: round_to_even_def Let_def)
  have a1: "binary64 (32425917317067571 / 36028797018963968) = 8106479329266893 / 9007199254740992"
    by (subst binary64_eval [where e = "- 1"]) (simp_all add: round_to_even_def Let_def)
  have a2: "binary64 (40532396646334465 / 2251799813685248) = 18"
    by (subst binary64_eval [where e = 4]) (simp_all add: round_to_even_def Let_def)
  have b0: "binary64 (7 / 10) = 3152519739159347 / 4503599627370496"
    by (subst binary64_eval [where e = "- 1"]) (simp_all add: round_to_even_def Let_def)
  have b1: "binary64 (1351079888211149 / 4503599627370496) = 1351079888211149 / 4503599627370496"
    by (subst binary64_eval [where e = "- 2"]) (simp_all add: round_to_even_def Let_def)
  have b2: "binary64 (6755399441055745 / 1125899906842624) = 6755399441055745 / 1125899906842624"
    by (subst binary64_eval [where e = 2]) (simp_all add: round_to_even_def Let_def)
  have b3: "binary64 (96827391988465665 / 1125899906842624) = 86"
    by (subst binary64_eval [where e = 6]) (simp_all add: round_to_even_def Let_def)
  have "calculateScore exactMatch (sampleGuess 3) sampleTrack = Inr \<lparr>score = 9800, isCorrect = True\<rparr>"
    by (simp add: calculateScore_def sampleGuess_def sampleTrack_def exactMatch_def Math_round_def Let_def binary64_exact a0 a1 a2)
  moreover have "calculateScore exactMatch (sampleGuess 21) sampleTrack = Inr \<lparr>score = 8600, isCorrect = True\<rparr>"
    by (simp add: calculateScore_def sampleGuess_def sampleTrack_def exactMatch_def Math_round_def Let_def binary64_exact b0 b1 b2 b3)
  ultimately show ?thesis
    using le calculateScore_antimono_elapsed [OF le a, of exactMatch "sampleGuess 0"]
    by blast
qed

text \<open>
  Claim C4: the correctness flag holds exactly when the title similarity and the artist
  similarity both exceed 0.8, the number that the literal \<^verbatim>\<open>0.8\<close> denotes, whatever the
  elapsed time \<open>t\<close> and the score.
\<close>

theorem isCorrect_iff:
  assumes "artists tr = artist0 # rest"
  shows "\<exists>r. calculateScore sim (st\<lparr>timer := t\<rparr>) tr = Inr r
            \<and> (isCorrect r \<longleftrightarrow>
                 sim (titleGuess st) (track_name tr) > binary64 0.8
                 \<and> sim (artistGuess st) (artist_name artist0) > binary64 0.8)"
  by (simp add: calculateScore_Cons [OF assms])

text \<open>
  Claim C4 at a perfect guess after 100 seconds: still correct.
\<close>

theorem isCorrect_iff_witness:
  "\<exists>r. calculateScore exactMatch ((sampleGuess 0)\<lparr>timer := 100\<rparr>) sampleTrack = Inr r
       \<and> (isCorrect r \<longleftrightarrow> True)"
  using isCorrect_iff [where tr = sampleTrack and ?artist0.0 = "\<lparr>artist_name = ''Band''\<rparr>"
      and rest = "[\<lparr>artist_name = ''Guest''\<rparr>]" and sim = exactMatch
      and st = "sampleGuess 0" and t = 100]
  by (simp add: sampleTrack_def sampleGuess_def exactMatch_def binary64_exact)

section \<open>Properties of the history entry\<close>

text \<open>
  Claim C10: scoring and the history entry read the first artist only. The artist
  similarity is taken against the first artist's name, the entry's \<^verbatim>\<open>artistName\<close> is
  that name, and dropping every further artist from the track changes neither the result
  of \<^verbatim>\<open>calculateScore\<close> nor that of \<^verbatim>\<open>handleSubmitGuess\<close>.
\<close>

theorem first_artist_only:
  assumes "artists tr = artist0 # rest"
  shows "calculateScore sim st tr = calculateScore sim st (tr\<lparr>artists := [artist0]\<rparr>)
       \<and> handleSubmitGuess sim now st tr = handleSubmitGuess sim now st (tr\<lparr>artists := [artist0]\<rparr>)
       \<and> (\<exists>res entry.
             calculateScore sim st tr = Inr res
           \<and> score res =
          Math_round
            (binary64
               (binary64
                  (binary64
                     (binary64 (binary64 (sim (titleGuess st) (track_name tr)
                + sim (artistGuess st) (artist_name artist0)) / 2)
                      * 80)
                   + binary64 (max 0 (binary64 (1 - binary64 (timer st / 30))) * 20))
                * 100))
           \<and> isCorrect res =
            (sim (titleGuess st) (track_name tr) > binary64 0.8
             \<and> sim (artistGuess st) (artist_name artist0) > binary64 0.8)
           \<and> handleSubmitGuess sim now st tr =
               Inr (st\<lparr>result := Some res\<rparr>,
                    [OnGameComplete (score res), AddGameResult entry])
           \<and> artistName entry = artist_name artist0
           \<and> entry_score entry = score res)"
proof -
  have one: "artists (tr\<lparr>artists := [artist0]\<rparr>) = artist0 # []" by simp
  have cs: "calculateScore sim st tr = calculateScore sim st (tr\<lparr>artists := [artist0]\<rparr>)"
    by (simp add: calculateScore_Cons [OF assms] calculateScore_Cons [OF one])
  have hs: "handleSubmitGuess sim now st tr
            = handleSubmitGuess sim now st (tr\<lparr>artists := [artist0]\<rparr>)"
    by (simp add: handleSubmitGuess_def calculateScore_Cons [OF assms]
        calculateScore_Cons [OF one] assms)
  have "\<exists>res entry.
             calculateScore sim st tr = Inr res
           \<and> score res =
          Math_round
            (binary64
               (binary64
                  (binary64
                     (binary64 (binary64 (sim (titleGuess st) (track_name tr)
                + sim (artistGuess st) (artist_name artist0)) / 2)
                      * 80)
                   + binary64 (max 0 (binary64 (1 - binary64 (timer st / 30))) * 20))
                * 100))
           \<and> isCorrect res =
            (sim (titleGuess st) (track_name tr) > binary64 0.8
             \<and> sim (artistGuess st) (artist_name artist0) > binary64 0.8)
           \<and> handleSubmitGuess sim now st tr =
               Inr (st\<lparr>result := Some res\<rparr>,
                    [OnGameComplete (score res), AddGameResult entry])
           \<and> artistName entry = artist_name artist0
           \<and> entry_score entry = score res"
    by (simp add: handleSubmitGuess_def calculateScore_Cons [OF assms] assms)
  with cs hs show ?thesis by blast
qed

text \<open>
  Claim C10 on a track by two artists: guessing the second artist's name earns nothing for
  the artist, and the entry names the first.
\<close>

theorem first_artist_only_witness:
  "artists sampleTrack = \<lparr>artist_name = ''Band''\<rparr> # [\<lparr>artist_name = ''Guest''\<rparr>]
   \<and> handleSubmitGuess exactMatch 1700000000000 ((sampleGuess 6)\<lparr>artistGuess := ''Guest''\<rparr>)
       sampleTrack
     = handleSubmitGuess exactMatch 1700000000000 ((sampleGuess 6)\<lparr>artistGuess := ''Guest''\<rparr>)
         (sampleTrack\<lparr>artists := [\<lparr>artist_name = ''Band''\<rparr>]\<rparr>)
   \<and> handleSubmitGuess exactMatch 1700000000000 ((sampleGuess 6)\<lparr>artistGuess := ''Guest''\<rparr>)
       sampleTrack
     = Inr ((sampleGuess 6)\<lparr>artistGuess := ''Guest'',
                             result := Some \<lparr>score = 5600, isCorrect = False\<rparr>\<rparr>,
            [OnGameComplete 5600,
             AddGameResult \<lparr>trackId = ''t1'', trackName = ''Song'', artistName = ''Band'',
                            albumImage = ''cover.png'', entry_score = 5600, time = 6,
                            timestamp = 1700000000000\<rparr>])"
proof -
  have a: "artists sampleTrack = \<lparr>artist_name = ''Band''\<rparr> # [\<lparr>artist_name = ''Guest''\<rparr>]"
    by (simp add: sampleTrack_def)
  have c1: "binary64 (1 / 5) = 3602879701896397 / 18014398509481984"
    by (subst binary64_eval [where e = "- 3"]) (simp_all add: round_to_even_def Let_def)
  have c2: "binary64 (14411518807585587 / 18014398509481984) = 3602879701896397 / 4503599627370496"
    by (subst binary64_eval [where e = "- 1"]) (simp_all add: round_to_even_def Let_def)
  have c3: "binary64 (18014398509481985 / 1125899906842624) = 16"
    by (subst binary64_eval [where e = 4]) (simp_all add: round_to_even_def Let_def)
  have e: "handleSubmitGuess exactMatch 1700000000000 ((sampleGuess 6)\<lparr>artistGuess := ''Guest''\<rparr>)
       sampleTrack
     = Inr ((sampleGuess 6)\<lparr>artistGuess := ''Guest'',
                             result := Some \<lparr>score = 5600, isCorrect = False\<rparr>\<rparr>,
            [OnGameComplete 5600,
             AddGameResult \<lparr>trackId = ''t1'', trackName = ''Song'', artistName = ''Band'',
                            albumImage = ''cover.png'', entry_score = 5600, time = 6,
                            timestamp = 1700000000000\<rparr>])"
    by (simp add: handleSubmitGuess_def calculateScore_def sampleGuess_def sampleTrack_def exactMatch_def Math_round_def Let_def binary64_exact c1 c2 c3)
  from first_artist_only [OF a, of exactMatch "(sampleGuess 6)\<lparr>artistGuess := ''Guest''\<rparr>"
      1700000000000]
  have "handleSubmitGuess exactMatch 1700000000000 ((sampleGuess 6)\<lparr>artistGuess := ''Guest''\<rparr>)
       sampleTrack
     = handleSubmitGuess exactMatch 1700000000000 ((sampleGuess 6)\<lparr>artistGuess := ''Guest''\<rparr>)
         (sampleTrack\<lparr>artists := [\<lparr>artist_name = ''Band''\<rparr>]\<rparr>)"
    by blast
  with a e show ?thesis by blast
qed

section \<open>Properties of the Track Selector\<close>

lemma handlePlaylistSelect_rejected:
  "handlePlaylistSelect validateTrack st (Inl e) rnd =
     Inr [SetError (Some ''Failed to load tracks. Please try again.'')]"
  by (simp add: handlePlaylistSelect_def)

lemma handlePlaylistSelect_exhausted:
  assumes "filter (\<lambda>t. track_id t \<notin> playedTracks st)
             (filter validateTrack (map track (items response))) = []"
  shows "handlePlaylistSelect validateTrack st (Inr response) rnd =
           Inr [SetError (Some ''No more unplayed tracks in this playlist!'')]"
  using assms by (simp add: handlePlaylistSelect_def)



lemma commit_error: "commit st [SetError e] = st\<lparr>error := e\<rparr>"
  by (simp add: commit_def)




text \<open>
  Claim C5: when the fetched playlist has no valid track outside the played set, the
  handler only sets the message \<^verbatim>\<open>No more unplayed tracks in this playlist!\<close>: no track
  is selected, the current track and the played set stay as they were.
\<close>

theorem no_more_tracks:
  assumes "\<forall>it \<in> set (items response).
             validateTrack (track it) \<longrightarrow> track_id (track it) \<in> playedTracks st"
  shows "\<exists>ups. handlePlaylistSelect validateTrack st (Inr response) rnd = Inr ups
           \<and> ups = [SetError (Some ''No more unplayed tracks in this playlist!'')]
           \<and> selected ups = []
           \<and> commit st ups = st\<lparr>error := Some ''No more unplayed tracks in this playlist!''\<rparr>
           \<and> currentTrack (commit st ups) = currentTrack st
           \<and> playedTracks (commit st ups) = playedTracks st"
proof -
  from assms have "filter (\<lambda>t. track_id t \<notin> playedTracks st)
             (filter validateTrack (map track (items response))) = []"
    by (auto simp: filter_empty_conv)
  then show ?thesis
    by (simp add: handlePlaylistSelect_exhausted commit_error)
qed

text \<open>
  Claim C5 on a playlist of two tracks, both played.
\<close>

theorem no_more_tracks_witness:
  "\<exists>ups. handlePlaylistSelect hasArtist
            (freshApp\<lparr>currentTrack := Some otherTrack, playedTracks := {''t1'', ''t2''}\<rparr>)
            (Inr sampleResponse) (1 / 2) = Inr ups
        \<and> ups = [SetError (Some ''No more unplayed tracks in this playlist!'')]
        \<and> currentTrack (commit (freshApp\<lparr>currentTrack := Some otherTrack,
                                           playedTracks := {''t1'', ''t2''}\<rparr>) ups)
            = Some otherTrack
        \<and> playedTracks (commit (freshApp\<lparr>currentTrack := Some otherTrack,
                                           playedTracks := {''t1'', ''t2''}\<rparr>) ups)
            = {''t1'', ''t2''}"
proof -
  let ?st = "freshApp\<lparr>currentTrack := Some otherTrack, playedTracks := {''t1'', ''t2''}\<rparr>"
  have played: "\<forall>it \<in> set (items sampleResponse).
                 hasArtist (track it) \<longrightarrow> track_id (track it) \<in> playedTracks ?st"
    by (simp add: sampleResponse_def sampleTrack_def otherTrack_def freshApp_def)
  have "currentTrack ?st = Some otherTrack" "playedTracks ?st = {''t1'', ''t2''}"
    by (simp_all add: freshApp_def)
  with no_more_tracks [OF played, of "1 / 2"] show ?thesis
    by auto
qed

text \<open>
  Claim C9: when \<^verbatim>\<open>getPlaylistTracks\<close> rejects, the handler only sets the message
  \<^verbatim>\<open>Failed to load tracks. Please try again.\<close>: the current track and the played set
  stay as they were.
\<close>

theorem fetch_failure_atomic:
  "handlePlaylistSelect validateTrack st (Inl e) rnd =
     Inr [SetError (Some ''Failed to load tracks. Please try again.'')]
   \<and> selected [SetError (Some ''Failed to load tracks. Please try again.'')] = []
   \<and> commit st [SetError (Some ''Failed to load tracks. Please try again.'')]
       = st\<lparr>error := Some ''Failed to load tracks. Please try again.''\<rparr>
   \<and> currentTrack (commit st [SetError (Some ''Failed to load tracks. Please try again.'')])
       = currentTrack st
   \<and> playedTracks (commit st [SetError (Some ''Failed to load tracks. Please try again.'')])
       = playedTracks st"
  by (simp add: handlePlaylistSelect_rejected commit_error)




section \<open>Properties of the game session\<close>

text \<open>
  Claim C7: the replay action sets the timer to 0, both guesses to the empty string and
  the result to absent, and calls the parent's \<^verbatim>\<open>onPlayAgain\<close> once; the session is
  then awaiting playback. This holds from every state, the Scored ones among them.
\<close>

theorem replay_resets:
  "timer (fst (handlePlayAgain st)) = 0
   \<and> titleGuess (fst (handlePlayAgain st)) = []
   \<and> artistGuess (fst (handlePlayAgain st)) = []
   \<and> result (fst (handlePlayAgain st)) = None
   \<and> isGuessing (fst (handlePlayAgain st)) = False
   \<and> hasStartedPlaying (fst (handlePlayAgain st)) = False
   \<and> snd (handlePlayAgain st) = [OnPlayAgain]
   \<and> phase_of pl (fst (handlePlayAgain st)) = AwaitingPlayback"
  by (simp add: handlePlayAgain_def phase_of_def)

text \<open>
  Claim C8 as stated fails on the code: in a Guessing state with playback paused, the
  action toggles playback, so the playback state is not what it was.
\<close>

theorem C8_counterexample:
  "phase_of pausedPlayer (sampleGuess 5) = Guessing
   \<and> handlePauseAndGuess togglePlayback (pausedPlayer, sampleGuess 5)
       \<noteq> (pausedPlayer, sampleGuess 5)
   \<and> isPlaying (fst (handlePauseAndGuess togglePlayback (pausedPlayer, sampleGuess 5)))
   \<and> \<not> isPlaying pausedPlayer"
  by (simp add: phase_of_def handlePauseAndGuess_def togglePlayback_def pausedPlayer_def
      sampleGuess_def)

text \<open>
  Claim C8, amended: in the Guessing phase the render function does not offer the
  pause-and-guess button; the handler has no guard of its own, and invoked there it leaves
  the component's state (guessing flag, timer, guesses, result) as it was and calls
  \<^verbatim>\<open>togglePlayback\<close> once on the player, whether its promise is fulfilled or not. The
  timer does not run afterwards and the phase is still Guessing.
\<close>

theorem pauseAndGuess_while_guessing:
  assumes "phase_of pl st = Guessing"
  shows "handlePauseAndGuess toggle (pl, st) = (fst (toggle pl), st)
         \<and> \<not> pauseAndGuessOffered pl st
         \<and> \<not> timerRunning (fst (toggle pl)) st
         \<and> phase_of (fst (toggle pl)) st = Guessing"
proof -
  from assms have g: "isGuessing st" and r: "result st = None"
    by (auto simp: phase_of_def split: if_splits)
  from g have "st\<lparr>isGuessing := True\<rparr> = st" by simp
  then have "handlePauseAndGuess toggle (pl, st) = (fst (toggle pl), st)"
    by (cases "toggle pl") (auto simp: handlePauseAndGuess_def split: settled.splits)
  moreover have "\<not> pauseAndGuessOffered pl st"
    using g by (simp add: pauseAndGuessOffered_def)
  moreover have "\<not> timerRunning (fst (toggle pl)) st"
    using g by (simp add: timerRunning_def)
  moreover have "phase_of (fst (toggle pl)) st = Guessing"
    using g r by (simp add: phase_of_def)
  ultimately show ?thesis by blast
qed

text \<open>
  The amended claim C8 at a paused player, five seconds into a round.
\<close>

theorem pauseAndGuess_while_guessing_witness:
  "phase_of pausedPlayer (sampleGuess 5) = Guessing
   \<and> handlePauseAndGuess togglePlayback (pausedPlayer, sampleGuess 5)
       = (pausedPlayer\<lparr>isPlaying := True\<rparr>, sampleGuess 5)
   \<and> \<not> pauseAndGuessOffered pausedPlayer (sampleGuess 5)"
proof -
  have p: "phase_of pausedPlayer (sampleGuess 5) = Guessing"
    by (simp add: phase_of_def sampleGuess_def)
  have "fst (togglePlayback pausedPlayer) = pausedPlayer\<lparr>isPlaying := True\<rparr>"
    by (simp add: togglePlayback_def pausedPlayer_def)
  with p pauseAndGuess_while_guessing [OF p, of togglePlayback] show ?thesis by simp
qed

end
